theory Spec2Isabelle
  imports Complex_Main
begin

section \<open>Heart disease predictor: the logic of \<open>02.streamlit_app_new.py\<close>\<close>

text \<open>
  The application is a Streamlit script. Its own logic is the path resolver, the cached
  model loader, the encoder of the manual form, the single-record verdict and the batch
  scoring of an uploaded table. The libraries it calls (the file system, \<open>joblib\<close>, the
  classifier, \<open>pandas\<close>) are parameters of the model or small functions that follow
  the library's documented behaviour; the text before each says which.
\<close>

subsection \<open>Strings and paths\<close>

text \<open>\<open>s.startswith(p)\<close> and \<open>p in s\<close> on Python strings.\<close>

fun startswith :: "string \<Rightarrow> string \<Rightarrow> bool" where
  "startswith s [] = True"
| "startswith [] (p # ps) = False"
| "startswith (c # cs) (p # ps) = (c = p \<and> startswith cs ps)"

fun str_contains :: "string \<Rightarrow> string \<Rightarrow> bool" where
  "str_contains [] p = (p = [])"
| "str_contains (c # cs) p = (startswith (c # cs) p \<or> str_contains cs p)"

definition endswith_sep :: "string \<Rightarrow> bool" where
  "endswith_sep path = (path \<noteq> [] \<and> last path = CHR ''/'')"

text \<open>
  \<open>os.path.join\<close> on a POSIX system: a component that starts with the separator
  replaces everything before it; otherwise it is appended, with one separator between
  unless the path so far is empty or already ends with one.
\<close>

definition join_step :: "string \<Rightarrow> string \<Rightarrow> string" where
  "join_step path b =
     (if startswith b ''/'' then b
      else if path = [] \<or> endswith_sep path then path @ b
      else path @ ''/'' @ b)"

definition os_path_join :: "string \<Rightarrow> string list \<Rightarrow> string" where
  "os_path_join a ps = foldl join_step a ps"

subsection \<open>Model artifact resolver\<close>

text \<open>
  \<open>resolve_model_path(filename)\<close>. The file system is the predicate \<open>ex\<close>, the
  answers of \<open>os.path.exists\<close>, which never raises. The loop returns at the first
  candidate that exists and falls through to \<open>None\<close>.
\<close>

definition possible_paths :: "string \<Rightarrow> string list" where
  "possible_paths filename =
     [os_path_join ''models'' [filename],
      os_path_join ''src'' [filename],
      filename,
      os_path_join ''..'' [''models'', filename]]"

fun first_existing :: "(string \<Rightarrow> bool) \<Rightarrow> string list \<Rightarrow> string option" where
  "first_existing ex [] = None"
| "first_existing ex (path # paths) =
     (if ex path then Some path else first_existing ex paths)"

definition resolve_model_path :: "(string \<Rightarrow> bool) \<Rightarrow> string \<Rightarrow> string option" where
  "resolve_model_path ex filename = first_existing ex (possible_paths filename)"


subsection \<open>Exceptions, class labels, tables\<close>

text \<open>
  Every \<open>raise\<close> the script can meet is a value. \<open>Raised msg\<close> is an exception that a
  library call (the classifier, \<open>joblib.load\<close>, \<open>pd.read_csv\<close>) raises with message
  \<open>msg\<close>; all of them are subclasses of \<open>Exception\<close>, which is what the script catches.
\<close>

datatype exn = KeyError string | IndexError | ValueError | Raised string

text \<open>
  A predicted class is an integer or a string label: the two kinds of value the script
  compares a prediction with.
\<close>

datatype label = IntL int | StrL string

text \<open>
  A table cell. The floating-point numbers are a type parameter \<open>'f\<close>: the script
  passes them on and never computes with them, except for the risk score below.
\<close>

datatype 'f cell = IntC int | FloatC 'f | StrC string | NaN

text \<open>
  A \<open>pandas.DataFrame\<close>: the columns in their order, each with its name and its
  cells. The number of rows is the length of the first column.
\<close>

type_synonym 'f frame = "(string \<times> 'f cell list) list"

fun nrows :: "'f frame \<Rightarrow> nat" where
  "nrows [] = 0"
| "nrows ((name, col) # df) = length col"

definition column_names :: "'f frame \<Rightarrow> string list" where
  "column_names df = map fst df"

fun cell_of_label :: "label \<Rightarrow> 'f cell" where
  "cell_of_label (IntL i) = IntC i"
| "cell_of_label (StrL s) = StrC s"

text \<open>
  \<open>df[name] = values\<close>. An existing column of that name is replaced where it stands,
  otherwise the column is appended. The values must be as many as the rows
  (\<open>ValueError\<close> otherwise), except that a table without rows takes its rows from a
  non-empty \<open>values\<close>: its other columns are then filled with \<open>NaN\<close>.
\<close>

fun put_column :: "string \<Rightarrow> 'f cell list \<Rightarrow> 'f frame \<Rightarrow> 'f frame" where
  "put_column name vals [] = [(name, vals)]"
| "put_column name vals ((n, col) # df) =
     (if n = name then (name, vals) # df else (n, col) # put_column name vals df)"

definition set_column :: "'f frame \<Rightarrow> string \<Rightarrow> 'f cell list \<Rightarrow> exn + 'f frame" where
  "set_column df name vals =
     (if nrows df = 0 \<and> vals \<noteq> []
      then Inr (put_column name vals (map (\<lambda>(n, col). (n, replicate (length vals) NaN)) df))
      else if length vals \<noteq> nrows df then Inl ValueError
      else Inr (put_column name vals df))"

text \<open>\<open>df.head()\<close>: the first five rows.\<close>

definition head5 :: "'f frame \<Rightarrow> 'f frame" where
  "head5 df = map (\<lambda>(n, col). (n, take 5 col)) df"

text \<open>\<open>xs[i]\<close> for \<open>i \<ge> 0\<close>, and \<open>P[:, 1]\<close> on a two-dimensional array given by its rows.\<close>

definition py_index :: "'a list \<Rightarrow> nat \<Rightarrow> exn + 'a" where
  "py_index xs i = (if i < length xs then Inr (xs ! i) else Inl IndexError)"

definition column_1 :: "'a list list \<Rightarrow> exn + 'a list" where
  "column_1 P = (if list_all (\<lambda>row. 1 < length row) P then Inr (map (\<lambda>row. row ! 1) P)
                 else Inl IndexError)"

subsection \<open>The classifier and the rest of the environment\<close>

text \<open>
  The unpickled model is opaque: \<open>predict\<close> maps a table to one class per row or raises;
  \<open>predict_proba\<close> may be missing (\<open>hasattr(model, "predict_proba")\<close> is then false) and
  otherwise maps a table to one row of class probabilities per row, or raises.
\<close>

record 'f classifier =
  predict :: "'f frame \<Rightarrow> exn + label list"
  predict_proba :: "('f frame \<Rightarrow> exn + 'f list list) option"

text \<open>The file system and \<open>joblib.load\<close>.\<close>

record 'f world =
  path_exists :: "string \<Rightarrow> bool"
  joblib_load :: "string \<Rightarrow> exn + 'f classifier"

text \<open>
  The three float operations of the risk score \<open>f"%{proba*100:.1f}"\<close>: the literal
  \<open>0.0\<close>, the product of a float with an integer, and the format \<open>.1f\<close>.
\<close>

record 'f float_ops =
  f_zero :: "'f"
  f_times :: "'f \<Rightarrow> int \<Rightarrow> 'f"
  f_format1 :: "'f \<Rightarrow> string"

text \<open>
  What the script shows, one constructor for each output call, in the order of the source:
  \<open>st.title\<close>; \<open>st.error("Error loading model: ...")\<close>; \<open>st.error("Model file ... not
  found!")\<close>; \<open>st.tabs\<close>; the subheader of the form; \<open>st.divider\<close>; the metric
  \<open>Risk Score\<close> with its text; the two verdicts; \<open>st.error("Prediction Error: ...")\<close>;
  the subheader of the batch tab; \<open>st.write("Uploaded Data Preview:")\<close>; \<open>st.dataframe\<close>;
  \<open>st.success("Analysis Completed!")\<close>; the download button, whose data is
  \<open>df.to_csv(index=False).encode('utf-8')\<close> of the table it carries, offered as
  \<open>predictions.csv\<close> with type \<open>text/csv\<close>; \<open>st.error("Error: ...")\<close>; the hint
  \<open>st.info("Ensure CSV columns match the training data format (numeric/int).")\<close>; and
  \<open>st.error("Could not read file.")\<close>.
\<close>

datatype 'f ui =
    Title
  | ErrorLoading exn
  | ErrorModelNotFound
  | Tabs
  | SubheaderManual
  | Divider
  | MetricRisk string
  | ErrorDisease
  | SuccessNormal
  | ErrorPrediction exn
  | SubheaderBatch
  | WritePreview
  | Dataframe "'f frame"
  | SuccessCompleted
  | Download "'f frame"
  | ErrorBatch exn
  | InfoHint
  | ErrorCouldNotRead

subsection \<open>Model loader\<close>

text \<open>
  \<open>load_model()\<close>, the body under the decorator. The result is the model or \<open>None\<close>,
  the messages shown, and the paths handed to \<open>joblib.load\<close>. \<open>if model_path:\<close> is false
  for \<open>None\<close> and for the empty string.
\<close>

definition load_model :: "'f world \<Rightarrow> 'f classifier option \<times> 'f ui list \<times> string list" where
  "load_model w =
     (case resolve_model_path (path_exists w) ''best_model.pkl'' of
        None \<Rightarrow> (None, [], [])
      | Some model_path \<Rightarrow>
          if model_path = [] then (None, [], [])
          else (case joblib_load w model_path of
                  Inr m \<Rightarrow> (Some m, [], [model_path])
                | Inl e \<Rightarrow> (None, [ErrorLoading e], [model_path])))"

text \<open>
  \<open>@st.cache_resource\<close> on a function without arguments: one slot for the whole
  process. The first call runs the body and stores what it returned, whatever it is,
  with the messages it showed; every later call returns the stored object, shows the
  stored messages again and does not run the body. The script never clears the slot.
\<close>

type_synonym 'f cache = "('f classifier option \<times> 'f ui list) option"

definition empty_cache :: "'f cache" where
  "empty_cache = None"

definition load_model_cached ::
  "'f world \<Rightarrow> 'f cache \<Rightarrow> 'f classifier option \<times> 'f ui list \<times> string list \<times> 'f cache" where
  "load_model_cached w c =
     (case c of
        Some (r, msgs) \<Rightarrow> (r, msgs, [], c)
      | None \<Rightarrow> (case load_model w of (r, msgs, loads) \<Rightarrow> (r, msgs, loads, Some (r, msgs))))"

text \<open>
  Successive calls in one process, each against the file system of its moment: the
  results in order, all the paths deserialized, and the cache at the end.
\<close>

fun load_repeatedly ::
  "'f world list \<Rightarrow> 'f cache \<Rightarrow> 'f classifier option list \<times> string list \<times> 'f cache" where
  "load_repeatedly [] c = ([], [], c)"
| "load_repeatedly (w # ws) c =
     (case load_model_cached w c of
        (r, msgs, loads, c') \<Rightarrow>
          (case load_repeatedly ws c' of
             (rs, loads', c'') \<Rightarrow> (r # rs, loads @ loads', c'')))"

subsection \<open>Manual input encoder\<close>

text \<open>
  The thirteen widgets of the form. A \<open>selectbox\<close> returns one of its options, a
  \<open>number_input\<close> a number between its bounds.
\<close>

record 'f form =
  age :: int
  sex_disp :: string
  cp_disp :: string
  trestbps :: int
  chol :: int
  fbs_disp :: string
  ecg_disp :: string
  thalach :: int
  exang_disp :: string
  oldpeak :: "'f"
  slope_disp :: string
  ca :: int
  thal_disp :: string

definition sex_options :: "string list" where
  "sex_options = [''Male'', ''Female'']"

definition cp_options :: "string list" where
  "cp_options = [''Typical Angina (1)'', ''Atypical Angina (2)'', ''Non-Anginal Pain (3)'',
                 ''Asymptomatic (4)'']"

definition fbs_options :: "string list" where
  "fbs_options = [''False (0)'', ''True (1)'']"

definition ecg_options :: "string list" where
  "ecg_options = [''Normal (0)'', ''ST-T Abnormality (1)'', ''LV Hypertrophy (2)'']"

definition exang_options :: "string list" where
  "exang_options = [''No (0)'', ''Yes (1)'']"

definition slope_options :: "string list" where
  "slope_options = [''Upsloping (1)'', ''Flat (2)'', ''Downsloping (3)'']"

definition ca_options :: "int list" where
  "ca_options = [0, 1, 2, 3]"

definition thal_options :: "string list" where
  "thal_options = [''Normal (3)'', ''Fixed Defect (6)'', ''Reversible Defect (7)'']"

text \<open>
  The selections the widgets can return. The bounds of \<open>oldpeak\<close> (0.0 to 10.0) are
  left out: the encoder does not look at the value.
\<close>

definition valid_form :: "'f form \<Rightarrow> bool" where
  "valid_form f =
     (10 \<le> age f \<and> age f \<le> 100 \<and>
      sex_disp f \<in> set sex_options \<and>
      cp_disp f \<in> set cp_options \<and>
      90 \<le> trestbps f \<and> trestbps f \<le> 200 \<and>
      100 \<le> chol f \<and> chol f \<le> 600 \<and>
      fbs_disp f \<in> set fbs_options \<and>
      ecg_disp f \<in> set ecg_options \<and>
      60 \<le> thalach f \<and> thalach f \<le> 220 \<and>
      exang_disp f \<in> set exang_options \<and>
      slope_disp f \<in> set slope_options \<and>
      ca f \<in> set ca_options \<and>
      thal_disp f \<in> set thal_options)"

definition cp_map :: "(string \<times> int) list" where
  "cp_map = [(''Typical Angina (1)'', 1), (''Atypical Angina (2)'', 2),
             (''Non-Anginal Pain (3)'', 3), (''Asymptomatic (4)'', 4)]"

definition ecg_map :: "(string \<times> int) list" where
  "ecg_map = [(''Normal (0)'', 0), (''ST-T Abnormality (1)'', 1), (''LV Hypertrophy (2)'', 2)]"

definition slope_map :: "(string \<times> int) list" where
  "slope_map = [(''Upsloping (1)'', 1), (''Flat (2)'', 2), (''Downsloping (3)'', 3)]"

definition thal_map :: "(string \<times> int) list" where
  "thal_map = [(''Normal (3)'', 3), (''Fixed Defect (6)'', 6), (''Reversible Defect (7)'', 7)]"

text \<open>\<open>d[k]\<close> on a dictionary literal: \<open>KeyError\<close> for a key that is not in it.\<close>

definition dict_get :: "(string \<times> int) list \<Rightarrow> string \<Rightarrow> exn + int" where
  "dict_get d k = (case map_of d k of Some v \<Rightarrow> Inr v | None \<Rightarrow> Inl (KeyError k))"

definition sex_val :: "string \<Rightarrow> int" where
  "sex_val s = (if s = ''Male'' then 1 else 0)"

definition fbs_val :: "string \<Rightarrow> int" where
  "fbs_val s = (if str_contains s ''True'' then 1 else 0)"

definition exang_val :: "string \<Rightarrow> int" where
  "exang_val s = (if str_contains s ''Yes'' then 1 else 0)"

text \<open>
  The encoder: the codes computed beside the widgets, then \<open>input_data\<close> and
  \<open>pd.DataFrame(input_data)\<close>, a table of one row whose columns are the keys of the
  dictionary in the order they are written.
\<close>

definition encode_form :: "'f form \<Rightarrow> exn + 'f frame" where
  "encode_form f =
     (case dict_get cp_map (cp_disp f) of Inl e \<Rightarrow> Inl e | Inr cp_val \<Rightarrow>
      case dict_get ecg_map (ecg_disp f) of Inl e \<Rightarrow> Inl e | Inr ecg_val \<Rightarrow>
      case dict_get slope_map (slope_disp f) of Inl e \<Rightarrow> Inl e | Inr slope_val \<Rightarrow>
      case dict_get thal_map (thal_disp f) of Inl e \<Rightarrow> Inl e | Inr thal_val \<Rightarrow>
        Inr [(''Age'', [IntC (age f)]),
             (''Sex'', [IntC (sex_val (sex_disp f))]),
             (''Chest pain type'', [IntC cp_val]),
             (''BP'', [IntC (trestbps f)]),
             (''Cholesterol'', [IntC (chol f)]),
             (''FBS over 120'', [IntC (fbs_val (fbs_disp f))]),
             (''EKG results'', [IntC ecg_val]),
             (''Max HR'', [IntC (thalach f)]),
             (''Exercise angina'', [IntC (exang_val (exang_disp f))]),
             (''ST depression'', [FloatC (oldpeak f)]),
             (''Slope of ST'', [IntC slope_val]),
             (''Number of vessels fluro'', [IntC (ca f)]),
             (''Thallium'', [IntC thal_val])])"

text \<open>
  The field names and the codes as the specification documents them: the thirteen names
  of its data model, \<open>0 = Female\<close>, \<open>1 = Male\<close>, and for every other label the number it
  shows in parentheses.
\<close>

definition spec_field_names :: "string list" where
  "spec_field_names =
     [''Age'', ''Sex'', ''Chest pain type'', ''BP'', ''Cholesterol'', ''FBS over 120'',
      ''EKG results'', ''Max HR'', ''Exercise angina'', ''ST depression'', ''Slope of ST'',
      ''Number of vessels fluro'', ''Thallium'']"

definition spec_codes :: "(string \<times> int) list" where
  "spec_codes =
     [(''Female'', 0), (''Male'', 1),
      (''Typical Angina (1)'', 1), (''Atypical Angina (2)'', 2),
      (''Non-Anginal Pain (3)'', 3), (''Asymptomatic (4)'', 4),
      (''False (0)'', 0), (''True (1)'', 1),
      (''Normal (0)'', 0), (''ST-T Abnormality (1)'', 1), (''LV Hypertrophy (2)'', 2),
      (''No (0)'', 0), (''Yes (1)'', 1),
      (''Upsloping (1)'', 1), (''Flat (2)'', 2), (''Downsloping (3)'', 3),
      (''Normal (3)'', 3), (''Fixed Defect (6)'', 6), (''Reversible Defect (7)'', 7)]"

subsection \<open>Single-record predictor\<close>

text \<open>
  \<open>model.predict_proba(input_df)[0][1] if hasattr(model, "predict_proba") else 0.0\<close>.
\<close>

definition single_proba :: "'f float_ops \<Rightarrow> 'f classifier \<Rightarrow> 'f frame \<Rightarrow> exn + 'f" where
  "single_proba fo m input_df =
     (case predict_proba m of
        None \<Rightarrow> Inr (f_zero fo)
      | Some pp \<Rightarrow>
          (case pp input_df of Inl e \<Rightarrow> Inl e | Inr P \<Rightarrow>
           case py_index P 0 of Inl e \<Rightarrow> Inl e | Inr row \<Rightarrow> py_index row 1))"

text \<open>\<open>if prediction == 1 or prediction == "Presence"\<close>, and the two messages.\<close>

definition verdict :: "label \<Rightarrow> 'f ui" where
  "verdict prediction =
     (if prediction = IntL 1 \<or> prediction = StrL ''Presence'' then ErrorDisease
      else SuccessNormal)"

text \<open>
  The \<open>try\<close> block under \<open>if submitted\<close>. Nothing is shown before both values are
  there, so an exception leaves the error message alone.
\<close>

definition manual_predict :: "'f float_ops \<Rightarrow> 'f classifier \<Rightarrow> 'f frame \<Rightarrow> 'f ui list" where
  "manual_predict fo m input_df =
     (case predict m input_df of Inl e \<Rightarrow> [ErrorPrediction e] | Inr preds \<Rightarrow>
      case py_index preds 0 of Inl e \<Rightarrow> [ErrorPrediction e] | Inr prediction \<Rightarrow>
      case single_proba fo m input_df of Inl e \<Rightarrow> [ErrorPrediction e] | Inr proba \<Rightarrow>
        [Divider,
         MetricRisk (''%'' @ f_format1 fo (f_times fo proba 100)),
         verdict prediction])"

subsection \<open>Batch predictor\<close>

text \<open>
  The \<open>try\<close> block under the button \<open>Start Batch Analysis\<close>. The script changes
  \<open>df\<close> in place, so the result holds the table as the block leaves it, together
  with the calls made to the model with their arguments, what is shown, and whether the
  block reached its end.
\<close>

datatype 'f call = CallPredict "'f frame" | CallPredictProba "'f frame"

record 'f batch_result =
  br_ok :: bool
  br_df :: "'f frame"
  br_calls :: "'f call list"
  br_ui :: "'f ui list"

definition batch_fail :: "'f frame \<Rightarrow> 'f call list \<Rightarrow> exn \<Rightarrow> 'f batch_result" where
  "batch_fail df calls e =
     \<lparr>br_ok = False, br_df = df, br_calls = calls, br_ui = [ErrorBatch e, InfoHint]\<rparr>"

definition batch_done :: "'f frame \<Rightarrow> 'f call list \<Rightarrow> 'f batch_result" where
  "batch_done df calls =
     \<lparr>br_ok = True, br_df = df, br_calls = calls,
      br_ui = [SuccessCompleted, Dataframe (head5 df), Download df]\<rparr>"

definition batch_analysis :: "'f classifier \<Rightarrow> 'f frame \<Rightarrow> 'f batch_result" where
  "batch_analysis m df =
     (case predict m df of
        Inl e \<Rightarrow> batch_fail df [CallPredict df] e
      | Inr preds \<Rightarrow>
     (case set_column df ''Prediction'' (map cell_of_label preds) of
        Inl e \<Rightarrow> batch_fail df [CallPredict df] e
      | Inr df1 \<Rightarrow>
     (case predict_proba m of
        None \<Rightarrow> batch_done df1 [CallPredict df]
      | Some pp \<Rightarrow>
     (case pp df1 of
        Inl e \<Rightarrow> batch_fail df1 [CallPredict df, CallPredictProba df1] e
      | Inr P \<Rightarrow>
     (case column_1 P of
        Inl e \<Rightarrow> batch_fail df1 [CallPredict df, CallPredictProba df1] e
      | Inr probs \<Rightarrow>
     (case set_column df1 ''Probability'' (map FloatC probs) of
        Inl e \<Rightarrow> batch_fail df1 [CallPredict df, CallPredictProba df1] e
      | Inr df2 \<Rightarrow> batch_done df2 [CallPredict df, CallPredictProba df1]))))))"

subsection \<open>The script\<close>

text \<open>
  One run of \<open>main()\<close>: the state of the widgets is its input. \<open>uploaded_file\<close> is
  absent, or carries what \<open>pd.read_csv\<close> makes of it.
\<close>

record 'f inputs =
  form :: "'f form"
  submitted :: bool
  uploaded_file :: "(exn + 'f frame) option"
  start_batch :: bool

definition tab_manual ::
  "'f float_ops \<Rightarrow> 'f classifier \<Rightarrow> 'f form \<Rightarrow> bool \<Rightarrow> exn + 'f ui list" where
  "tab_manual fo m f sub =
     (case encode_form f of
        Inl e \<Rightarrow> Inl e
      | Inr input_df \<Rightarrow>
          Inr (SubheaderManual # (if sub then manual_predict fo m input_df else [])))"

definition tab_batch :: "'f classifier \<Rightarrow> (exn + 'f frame) option \<Rightarrow> bool \<Rightarrow> 'f ui list" where
  "tab_batch m up start =
     SubheaderBatch #
     (case up of
        None \<Rightarrow> []
      | Some (Inl e) \<Rightarrow> [ErrorCouldNotRead]
      | Some (Inr df) \<Rightarrow>
          [WritePreview, Dataframe (head5 df)] @
          (if start then br_ui (batch_analysis m df) else []))"

text \<open>
  \<open>main()\<close> returns the cache, the paths deserialized in this run, and what is shown, or
  the exception that escapes (only a \<open>KeyError\<close> of the encoder can).
\<close>

definition main ::
  "'f float_ops \<Rightarrow> 'f world \<Rightarrow> 'f cache \<Rightarrow> 'f inputs \<Rightarrow>
     'f cache \<times> string list \<times> (exn + 'f ui list)" where
  "main fo w c inp =
     (case load_model_cached w c of
        (model, msgs, loads, c') \<Rightarrow>
          (case model of
             None \<Rightarrow> (c', loads, Inr (Title # msgs @ [ErrorModelNotFound]))
           | Some m \<Rightarrow>
               (case tab_manual fo m (form inp) (submitted inp) of
                  Inl e \<Rightarrow> (c', loads, Inl e)
                | Inr ui1 \<Rightarrow>
                    (c', loads,
                     Inr (Title # msgs @ [Tabs] @ ui1 @
                          tab_batch m (uploaded_file inp) (start_batch inp))))))"

text \<open>
  Successive runs of the script in one process, each with the file system and the
  widgets of its moment: the cache at the end and all the paths deserialized. The call
  in \<open>main()\<close> is the only use the script makes of the cache.
\<close>

fun run_script ::
  "'f float_ops \<Rightarrow> ('f world \<times> 'f inputs) list \<Rightarrow> 'f cache \<Rightarrow> 'f cache \<times> string list" where
  "run_script fo [] c = (c, [])"
| "run_script fo ((w, inp) # runs) c =
     (case main fo w c inp of
        (c', loads, out) \<Rightarrow>
          (case run_script fo runs c' of
             (c'', loads') \<Rightarrow> (c'', loads @ loads')))"

subsection \<open>A concrete instance of the float operations\<close>

text \<open>
  To run the definitions on concrete data the floats are instantiated with exact
  rationals: \<open>0\<close>, exact multiplication, and one decimal place with ties to even.
\<close>

definition digit_char :: "nat \<Rightarrow> char" where
  "digit_char n = char_of (48 + n)"

fun dec_string :: "nat \<Rightarrow> string" where
  "dec_string n =
     (if n < 10 then [digit_char n] else dec_string (n div 10) @ [digit_char (n mod 10)])"

definition round_half_even :: "rat \<Rightarrow> int" where
  "round_half_even x =
     (let fl = \<lfloor>x\<rfloor>; d = x - of_int fl
      in if d < 1 / 2 then fl else if 1 / 2 < d then fl + 1
         else if even fl then fl else fl + 1)"

definition format1_rat :: "rat \<Rightarrow> string" where
  "format1_rat x =
     (let t = round_half_even (x * 10); a = nat \<bar>t\<bar>
      in (if t < 0 then ''-'' else []) @ dec_string (a div 10) @ ''.'' @ [digit_char (a mod 10)])"

definition rat_ops :: "rat float_ops" where
  "rat_ops = \<lparr>f_zero = 0, f_times = (\<lambda>x n. x * of_int n), f_format1 = format1_rat\<rparr>"

subsection \<open>The contract of a classifier, and concrete data\<close>

text \<open>
  Bulk classification gives one class per row, and one row of probabilities per row.
\<close>

definition one_per_row :: "'f classifier \<Rightarrow> bool" where
  "one_per_row m =
     (\<forall>df. (\<forall>preds. predict m df = Inr preds \<longrightarrow> length preds = nrows df) \<and>
           (\<forall>pp P. predict_proba m = Some pp \<longrightarrow> pp df = Inr P \<longrightarrow> length P = nrows df))"

text \<open>The selections of the end-to-end scenario of the specification.\<close>

definition scenario_form :: "rat form" where
  "scenario_form =
     \<lparr>age = 50, sex_disp = ''Male'', cp_disp = ''Typical Angina (1)'', trestbps = 120,
      chol = 200, fbs_disp = ''False (0)'', ecg_disp = ''Normal (0)'', thalach = 150,
      exang_disp = ''No (0)'', oldpeak = 0, slope_disp = ''Upsloping (1)'', ca = 0,
      thal_disp = ''Normal (3)''\<rparr>"

text \<open>
  Classifiers that do not look at the features: the same class for every row, without
  and with probability estimation.
\<close>

definition constant_model :: "label \<Rightarrow> 'f classifier" where
  "constant_model c =
     \<lparr>predict = (\<lambda>df. Inr (replicate (nrows df) c)), predict_proba = None\<rparr>"

definition constant_proba_model :: "label \<Rightarrow> 'f list \<Rightarrow> 'f classifier" where
  "constant_proba_model c row =
     \<lparr>predict = (\<lambda>df. Inr (replicate (nrows df) c)),
      predict_proba = Some (\<lambda>df. Inr (replicate (nrows df) row))\<rparr>"

text \<open>
  A classifier trained on the column \<open>Age\<close> alone, which rejects a table without it
  and, as \<open>predict_proba\<close>, a table with a column it has not seen.
\<close>

definition age_model :: "rat classifier" where
  "age_model =
     \<lparr>predict = (\<lambda>df. if map_of df ''Age'' = None then Inl (Raised ''missing column: Age'')
                       else Inr (replicate (nrows df) (IntL 0))),
      predict_proba = Some (\<lambda>df. if map fst df \<noteq> [''Age'']
                                  then Inl (Raised ''feature names should match'')
                                  else Inr (replicate (nrows df) [3 / 4, 1 / 4]))\<rparr>"

text \<open>
  File systems: the artifact under \<open>models/\<close>, no artifact at all, and an artifact
  beside the script that \<open>joblib.load\<close> cannot read. And one state of the widgets.
\<close>

definition artifact_world :: "rat classifier \<Rightarrow> rat world" where
  "artifact_world m =
     \<lparr>path_exists = (\<lambda>p. p = ''models/best_model.pkl''), joblib_load = (\<lambda>p. Inr m)\<rparr>"

definition empty_world :: "rat world" where
  "empty_world = \<lparr>path_exists = (\<lambda>p. False), joblib_load = (\<lambda>p. Inl (Raised ''no such file''))\<rparr>"

definition corrupt_world :: "rat world" where
  "corrupt_world =
     \<lparr>path_exists = (\<lambda>p. p = ''best_model.pkl''),
      joblib_load = (\<lambda>p. Inl (Raised ''invalid load key''))\<rparr>"

definition scenario_inputs :: "rat inputs" where
  "scenario_inputs =
     \<lparr>form = scenario_form, submitted = True, uploaded_file = None, start_batch = False\<rparr>"

text \<open>
  Uploaded tables: one without the column \<open>Age\<close>, one with it, and one that already
  has a column \<open>Prediction\<close>.
\<close>

definition bp_only :: "rat frame" where
  "bp_only = [(''BP'', [IntC 120, IntC 140])]"

definition age_only :: "rat frame" where
  "age_only = [(''Age'', [IntC 50, IntC 61])]"

definition with_prediction :: "rat frame" where
  "with_prediction = [(''Age'', [IntC 50]), (''Prediction'', [IntC 0])]"

section \<open>Properties\<close>

subsection \<open>Resolver\<close>







subsection \<open>Manual input encoder\<close>

lemma cp_code:
  "s \<in> set cp_options \<Longrightarrow> \<exists>v. dict_get cp_map s = Inr v \<and> map_of spec_codes s = Some v"
  unfolding cp_options_def
  by (simp only: list.set insert_iff empty_iff, elim disjE;
      simp add: dict_get_def cp_map_def spec_codes_def)

lemma ecg_code:
  "s \<in> set ecg_options \<Longrightarrow> \<exists>v. dict_get ecg_map s = Inr v \<and> map_of spec_codes s = Some v"
  unfolding ecg_options_def
  by (simp only: list.set insert_iff empty_iff, elim disjE;
      simp add: dict_get_def ecg_map_def spec_codes_def)

lemma slope_code:
  "s \<in> set slope_options \<Longrightarrow>
     \<exists>v. dict_get slope_map s = Inr v \<and> map_of spec_codes s = Some v"
  unfolding slope_options_def
  by (simp only: list.set insert_iff empty_iff, elim disjE;
      simp add: dict_get_def slope_map_def spec_codes_def)

lemma thal_code:
  "s \<in> set thal_options \<Longrightarrow> \<exists>v. dict_get thal_map s = Inr v \<and> map_of spec_codes s = Some v"
  unfolding thal_options_def
  by (simp only: list.set insert_iff empty_iff, elim disjE;
      simp add: dict_get_def thal_map_def spec_codes_def)

lemma sex_code:
  "s \<in> set sex_options \<Longrightarrow> map_of spec_codes s = Some (sex_val s)"
  unfolding sex_options_def
  by (simp only: list.set insert_iff empty_iff, elim disjE;
      simp add: sex_val_def spec_codes_def)

lemma fbs_code:
  "s \<in> set fbs_options \<Longrightarrow> map_of spec_codes s = Some (fbs_val s)"
  unfolding fbs_options_def
  by (simp only: list.set insert_iff empty_iff, elim disjE;
      simp add: fbs_val_def spec_codes_def)

lemma exang_code:
  "s \<in> set exang_options \<Longrightarrow> map_of spec_codes s = Some (exang_val s)"
  unfolding exang_options_def
  by (simp only: list.set insert_iff empty_iff, elim disjE;
      simp add: exang_val_def spec_codes_def)

text \<open>
  C1: for every valid combination of the thirteen selections the encoder returns a table
  of one row whose columns are the thirteen documented names in the documented order;
  each label is turned into its documented code and each number is passed on as it is.
\<close>

theorem encode_form_valid:
  assumes "valid_form f"
  shows "\<exists>sex cp fbs ecg exang slope thal.
           map_of spec_codes (sex_disp f) = Some sex \<and>
           map_of spec_codes (cp_disp f) = Some cp \<and>
           map_of spec_codes (fbs_disp f) = Some fbs \<and>
           map_of spec_codes (ecg_disp f) = Some ecg \<and>
           map_of spec_codes (exang_disp f) = Some exang \<and>
           map_of spec_codes (slope_disp f) = Some slope \<and>
           map_of spec_codes (thal_disp f) = Some thal \<and>
           encode_form f =
             Inr (zip spec_field_names
                    [[IntC (age f)], [IntC sex], [IntC cp], [IntC (trestbps f)],
                     [IntC (chol f)], [IntC fbs], [IntC ecg], [IntC (thalach f)],
                     [IntC exang], [FloatC (oldpeak f)], [IntC slope], [IntC (ca f)],
                     [IntC thal]])"
proof -
  from assms have mem: "sex_disp f \<in> set sex_options" "cp_disp f \<in> set cp_options"
      "fbs_disp f \<in> set fbs_options" "ecg_disp f \<in> set ecg_options"
      "exang_disp f \<in> set exang_options" "slope_disp f \<in> set slope_options"
      "thal_disp f \<in> set thal_options"
    by (simp_all only: valid_form_def)
  from cp_code[OF mem(2)] obtain cp where cp: "dict_get cp_map (cp_disp f) = Inr cp"
      "map_of spec_codes (cp_disp f) = Some cp" by blast
  from ecg_code[OF mem(4)] obtain ecg where ecg: "dict_get ecg_map (ecg_disp f) = Inr ecg"
      "map_of spec_codes (ecg_disp f) = Some ecg" by blast
  from slope_code[OF mem(6)] obtain slope where
      slope: "dict_get slope_map (slope_disp f) = Inr slope"
      "map_of spec_codes (slope_disp f) = Some slope" by blast
  from thal_code[OF mem(7)] obtain thal where thal: "dict_get thal_map (thal_disp f) = Inr thal"
      "map_of spec_codes (thal_disp f) = Some thal" by blast
  note sex = sex_code[OF mem(1)]
  note fbs = fbs_code[OF mem(3)]
  note exang = exang_code[OF mem(5)]
  have "encode_form f =
             Inr (zip spec_field_names
                    [[IntC (age f)], [IntC (sex_val (sex_disp f))], [IntC cp],
                     [IntC (trestbps f)], [IntC (chol f)], [IntC (fbs_val (fbs_disp f))],
                     [IntC ecg], [IntC (thalach f)], [IntC (exang_val (exang_disp f))],
                     [FloatC (oldpeak f)], [IntC slope], [IntC (ca f)], [IntC thal]])"
    by (simp add: encode_form_def cp(1) ecg(1) slope(1) thal(1) spec_field_names_def)
  with cp(2) ecg(2) slope(2) thal(2) sex fbs exang show ?thesis by blast
qed

lemma scenario_valid: "valid_form scenario_form"
  by (simp add: valid_form_def scenario_form_def sex_options_def cp_options_def
        fbs_options_def ecg_options_def exang_options_def slope_options_def ca_options_def
        thal_options_def)

theorem encode_form_valid_witness:
  "valid_form scenario_form \<and>
   encode_form scenario_form =
     Inr [(''Age'', [IntC 50]), (''Sex'', [IntC 1]), (''Chest pain type'', [IntC 1]),
          (''BP'', [IntC 120]), (''Cholesterol'', [IntC 200]), (''FBS over 120'', [IntC 0]),
          (''EKG results'', [IntC 0]), (''Max HR'', [IntC 150]), (''Exercise angina'', [IntC 0]),
          (''ST depression'', [FloatC 0]), (''Slope of ST'', [IntC 1]),
          (''Number of vessels fluro'', [IntC 0]), (''Thallium'', [IntC 3])]"
  using encode_form_valid[OF scenario_valid] scenario_valid
  by (simp add: scenario_form_def spec_codes_def spec_field_names_def)

subsection \<open>Single-record predictor\<close>

text \<open>
  C2, as stated: class 1 gives the verdict that disease is detected and every other class
  the normal verdict. The label \<open>Presence\<close> is not 1 and gives the disease verdict.
\<close>

theorem verdict_presence_counterexample:
  "StrL ''Presence'' \<noteq> IntL 1 \<and>
   manual_predict rat_ops (constant_model (StrL ''Presence'')) [(''Age'', [IntC 50])]
     = [Divider, MetricRisk ''%0.0'', ErrorDisease]"
  by code_simp

text \<open>
  C2, amended: when the prediction succeeds, the disease verdict is shown exactly for the
  class 1 and for the label \<open>Presence\<close>, and the normal verdict for every other class.
\<close>

theorem verdict_one_or_presence:
  assumes "predict m input_df = Inr (prediction # rest)"
    and "single_proba fo m input_df = Inr proba"
  shows "(ErrorDisease \<in> set (manual_predict fo m input_df))
           = (prediction = IntL 1 \<or> prediction = StrL ''Presence'') \<and>
         (SuccessNormal \<in> set (manual_predict fo m input_df))
           = (prediction \<noteq> IntL 1 \<and> prediction \<noteq> StrL ''Presence'')"
  using assms by (simp add: manual_predict_def py_index_def verdict_def)

theorem verdict_one_or_presence_witness:
  "predict (constant_model (IntL 0) :: rat classifier) [(''Age'', [IntC 50])] = Inr [IntL 0] \<and>
   single_proba rat_ops (constant_model (IntL 0)) [(''Age'', [IntC 50])] = Inr 0 \<and>
   SuccessNormal \<in> set (manual_predict rat_ops (constant_model (IntL 0)) [(''Age'', [IntC 50])]) \<and>
   ErrorDisease \<notin> set (manual_predict rat_ops (constant_model (IntL 0)) [(''Age'', [IntC 50])])"
proof -
  have p: "predict (constant_model (IntL 0) :: rat classifier) [(''Age'', [IntC 50])]
             = Inr (IntL 0 # [])"
    by (simp add: constant_model_def)
  have q: "single_proba rat_ops (constant_model (IntL 0)) [(''Age'', [IntC 50])] = Inr 0"
    by (simp add: single_proba_def constant_model_def rat_ops_def)
  from verdict_one_or_presence[OF p q] p q show ?thesis by simp
qed

text \<open>
  C5: with probability estimation the probability is entry 1 of the first row that
  \<open>predict_proba\<close> returns for the record; without it the probability is \<open>0.0\<close> and
  the prediction does not fail for that; the risk shown is the probability times 100 in
  the format \<open>.1f\<close>, after a percent sign.
\<close>

theorem risk_score_probability:
  "(predict_proba m = Some pp \<longrightarrow> predict m input_df = Inr (prediction # rest) \<longrightarrow>
    pp input_df = Inr (row # rows) \<longrightarrow> 1 < length row \<longrightarrow>
      single_proba fo m input_df = Inr (row ! 1) \<and>
      manual_predict fo m input_df =
        [Divider, MetricRisk (''%'' @ f_format1 fo (f_times fo (row ! 1) 100)),
         verdict prediction]) \<and>
   (predict_proba m = None \<longrightarrow> predict m input_df = Inr (prediction # rest) \<longrightarrow>
      single_proba fo m input_df = Inr (f_zero fo) \<and>
      manual_predict fo m input_df =
        [Divider, MetricRisk (''%'' @ f_format1 fo (f_times fo (f_zero fo) 100)),
         verdict prediction])"
  by (simp add: manual_predict_def single_proba_def py_index_def)

theorem risk_score_probability_witness:
  "manual_predict rat_ops (constant_proba_model (IntL 1) [1 / 5, 4 / 5]) [(''Age'', [IntC 50])]
     = [Divider, MetricRisk ''%80.0'', ErrorDisease] \<and>
   manual_predict rat_ops (constant_model (IntL 0)) [(''Age'', [IntC 50])]
     = [Divider, MetricRisk ''%0.0'', SuccessNormal]"
proof -
  let ?df = "[(''Age'', [IntC 50])] :: rat frame"
  let ?pp = "\<lambda>df :: rat frame. Inr (replicate (nrows df) [1 / 5, 4 / 5 :: rat]) :: exn + rat list list"
  let ?m1 = "constant_proba_model (IntL 1) [1 / 5, 4 / 5 :: rat]"
  let ?m0 = "constant_model (IntL 0) :: rat classifier"
  have f1: "f_format1 rat_ops (f_times rat_ops (4 / 5) 100) = ''80.0''" by code_simp
  have f0: "f_format1 rat_ops (f_times rat_ops (f_zero rat_ops) 100) = ''0.0''" by code_simp
  have a1: "predict_proba ?m1 = Some ?pp"
    by (simp add: constant_proba_model_def)
  have a2: "predict ?m1 ?df = Inr (IntL 1 # [])"
    by (simp add: constant_proba_model_def)
  have a3: "?pp ?df = Inr ([1 / 5, 4 / 5] # [])"
    by simp
  have a4: "1 < length [1 / 5, 4 / 5 :: rat]"
    by simp
  have b1: "predict_proba ?m0 = None"
    by (simp add: constant_model_def)
  have b2: "predict ?m0 ?df = Inr (IntL 0 # [])"
    by (simp add: constant_model_def)
  note r1 = risk_score_probability[where fo = rat_ops, THEN conjunct1, rule_format,
      OF a1 a2 a3 a4, THEN conjunct2]
  note r0 = risk_score_probability[where fo = rat_ops and pp = ?pp and row = "[]"
      and rows = "[]", THEN conjunct2, rule_format, OF b1 b2, THEN conjunct2]
  show ?thesis
    by (simp add: r1 r0 f1 f0 verdict_def)
qed

subsection \<open>Model loader\<close>

lemma resolve_best_model_nonempty:
  "resolve_model_path ex ''best_model.pkl'' = Some p \<Longrightarrow> p \<noteq> []"
  by (auto simp add: resolve_model_path_def possible_paths_def os_path_join_def join_step_def
      endswith_sep_def split: if_splits)

lemma load_repeatedly_hit:
  "load_repeatedly ws (Some (r, msgs)) = (replicate (length ws) r, [], Some (r, msgs))"
  by (induction ws) (simp_all add: load_model_cached_def)

lemma main_hit:
  "main fo w (Some x) inp = (c', loads, out) \<Longrightarrow> c' = Some x \<and> loads = []"
  by (cases x)
     (auto simp add: main_def load_model_cached_def split: option.splits sum.splits)

lemma run_script_hit: "run_script fo runs (Some x) = (Some x, [])"
proof (induction runs)
  case Nil
  show ?case by simp
next
  case (Cons a runs)
  obtain w inp where a: "a = (w, inp)" by (cases a)
  obtain c' loads out where m: "main fo w (Some x) inp = (c', loads, out)"
    by (cases "main fo w (Some x) inp")
  from main_hit[OF m] have "c' = Some x" "loads = []" by simp_all
  with m Cons.IH show ?case by (simp add: a)
qed

lemma load_model_first:
  "load_model w =
     (case resolve_model_path (path_exists w) ''best_model.pkl'' of
        None \<Rightarrow> (None, [], [])
      | Some p \<Rightarrow> (case joblib_load w p of
                    Inr m \<Rightarrow> (Some m, [], [p])
                  | Inl e \<Rightarrow> (None, [ErrorLoading e], [p])))"
proof (cases "resolve_model_path (path_exists w) ''best_model.pkl''")
  case None
  then show ?thesis by (simp add: load_model_def)
next
  case (Some p)
  then have "p \<noteq> []" by (rule resolve_best_model_nonempty)
  with Some show ?thesis by (simp add: load_model_def)
qed

text \<open>
  C6, as stated: the cache is filled by the first successful load. A first load that
  fails fills it too, with \<open>None\<close>: the artifact that appears afterwards would load,
  but the body is not run again.
\<close>

theorem load_failure_cached_counterexample:
  "fst (load_model (artifact_world (constant_model (IntL 1)))) = Some (constant_model (IntL 1)) \<and>
   load_repeatedly [empty_world, artifact_world (constant_model (IntL 1))] empty_cache
     = ([None, None], [], Some (None, [])) \<and>
   Some (None, []) \<noteq> (empty_cache :: rat cache)"
  by (simp add: load_model_cached_def empty_cache_def load_model_def artifact_world_def
      empty_world_def resolve_model_path_def possible_paths_def os_path_join_def join_step_def
      endswith_sep_def)

text \<open>
  C6, amended: the cache is empty when the process starts; the first call resolves the
  path, deserializes at most that one file and fills the cache with what it returns, the
  model or \<open>None\<close>; no later run of the script changes the cache, and every later call
  returns the same object and deserializes nothing, whatever the file system has become.
\<close>

theorem load_model_cache_lifecycle:
  assumes "load_model_cached w empty_cache = (r, msgs, loads, c)"
  shows "(r, msgs, loads) =
           (case resolve_model_path (path_exists w) ''best_model.pkl'' of
              None \<Rightarrow> (None, [], [])
            | Some p \<Rightarrow> (case joblib_load w p of
                          Inr m \<Rightarrow> (Some m, [], [p])
                        | Inl e \<Rightarrow> (None, [ErrorLoading e], [p]))) \<and>
         c = Some (r, msgs) \<and> c \<noteq> empty_cache \<and>
         (\<forall>w'. load_model_cached w' c = (r, msgs, [], c)) \<and>
         load_repeatedly ws c = (replicate (length ws) r, [], c) \<and>
         run_script fo runs c = (c, [])"
proof -
  from assms have first: "load_model w = (r, msgs, loads)" and c: "c = Some (r, msgs)"
    by (auto simp add: load_model_cached_def empty_cache_def split: prod.splits)
  have "(r, msgs, loads) =
           (case resolve_model_path (path_exists w) ''best_model.pkl'' of
              None \<Rightarrow> (None, [], [])
            | Some p \<Rightarrow> (case joblib_load w p of
                          Inr m \<Rightarrow> (Some m, [], [p])
                        | Inl e \<Rightarrow> (None, [ErrorLoading e], [p])))"
    using first by (simp only: load_model_first)
  moreover have "c \<noteq> empty_cache"
    by (simp add: c empty_cache_def)
  moreover have "\<forall>w'. load_model_cached w' c = (r, msgs, [], c)"
    by (simp add: c load_model_cached_def)
  moreover have "load_repeatedly ws c = (replicate (length ws) r, [], c)"
    by (simp add: c load_repeatedly_hit)
  moreover have "run_script fo runs c = (c, [])"
    by (simp add: c run_script_hit)
  ultimately show ?thesis using c by blast
qed

lemma artifact_first_load:
  "load_model_cached (artifact_world m) empty_cache
     = (Some m, [], [''models/best_model.pkl''], Some (Some m, []))"
  by (simp add: load_model_cached_def empty_cache_def load_model_def artifact_world_def
      resolve_model_path_def possible_paths_def os_path_join_def join_step_def endswith_sep_def)

lemma corrupt_first_load:
  "load_model_cached corrupt_world empty_cache
     = (None, [ErrorLoading (Raised ''invalid load key'')], [''best_model.pkl''],
        Some (None, [ErrorLoading (Raised ''invalid load key'')]))"
  by (simp add: load_model_cached_def empty_cache_def load_model_def corrupt_world_def
      resolve_model_path_def possible_paths_def os_path_join_def join_step_def endswith_sep_def)

theorem load_model_cache_lifecycle_witness:
  "load_model_cached (artifact_world (constant_model (IntL 1))) empty_cache
     = (Some (constant_model (IntL 1)), [], [''models/best_model.pkl''],
        Some (Some (constant_model (IntL 1)), [])) \<and>
   load_repeatedly [empty_world, corrupt_world] (Some (Some (constant_model (IntL 1)), []))
     = ([Some (constant_model (IntL 1)), Some (constant_model (IntL 1))], [],
        Some (Some (constant_model (IntL 1)), [])) \<and>
   run_script rat_ops [(empty_world, scenario_inputs), (corrupt_world, scenario_inputs)]
       (Some (Some (constant_model (IntL 1)), []))
     = (Some (Some (constant_model (IntL 1)), []), []) \<and>
   load_model_cached corrupt_world empty_cache
     = (None, [ErrorLoading (Raised ''invalid load key'')], [''best_model.pkl''],
        Some (None, [ErrorLoading (Raised ''invalid load key'')])) \<and>
   load_repeatedly [artifact_world (constant_model (IntL 1))]
       (Some (None, [ErrorLoading (Raised ''invalid load key'')]))
     = ([None], [], Some (None, [ErrorLoading (Raised ''invalid load key'')]))"
  using load_model_cache_lifecycle[OF artifact_first_load,
          of "constant_model (IntL 1)" "[empty_world, corrupt_world]" rat_ops
             "[(empty_world, scenario_inputs), (corrupt_world, scenario_inputs)]"]
        load_model_cache_lifecycle[OF corrupt_first_load,
          of "[artifact_world (constant_model (IntL 1))]" rat_ops "[]"]
        artifact_first_load[of "constant_model (IntL 1)"] corrupt_first_load
  by simp

text \<open>
  C8: when the path resolves and deserialization raises, the loader shows the load error
  with its cause and returns \<open>None\<close>, and the script shows the not-found error and
  stops there, in this run and in every later one; when no candidate exists the loader
  returns \<open>None\<close> too and the script stops at the same place.
\<close>

theorem load_failure_model_unavailable:
  "(resolve_model_path (path_exists w) ''best_model.pkl'' = Some p \<longrightarrow>
    joblib_load w p = Inl e \<longrightarrow>
      load_model w = (None, [ErrorLoading e], [p]) \<and>
      main fo w empty_cache inp =
        (Some (None, [ErrorLoading e]), [p], Inr [Title, ErrorLoading e, ErrorModelNotFound]) \<and>
      main fo w' (Some (None, [ErrorLoading e])) inp' =
        (Some (None, [ErrorLoading e]), [], Inr [Title, ErrorLoading e, ErrorModelNotFound])) \<and>
   (resolve_model_path (path_exists w) ''best_model.pkl'' = None \<longrightarrow>
      load_model w = (None, [], []) \<and>
      main fo w empty_cache inp = (Some (None, []), [], Inr [Title, ErrorModelNotFound]) \<and>
      main fo w' (Some (None, [])) inp' = (Some (None, []), [], Inr [Title, ErrorModelNotFound]))"
proof (intro conjI impI)
  assume r: "resolve_model_path (path_exists w) ''best_model.pkl'' = Some p"
    and l: "joblib_load w p = Inl e"
  from r have ne: "p \<noteq> []" by (rule resolve_best_model_nonempty)
  show lm: "load_model w = (None, [ErrorLoading e], [p])"
    by (simp add: load_model_def r l ne)
  show "main fo w empty_cache inp =
        (Some (None, [ErrorLoading e]), [p], Inr [Title, ErrorLoading e, ErrorModelNotFound])"
    by (simp add: main_def load_model_cached_def empty_cache_def lm)
  show "main fo w' (Some (None, [ErrorLoading e])) inp' =
        (Some (None, [ErrorLoading e]), [], Inr [Title, ErrorLoading e, ErrorModelNotFound])"
    by (simp add: main_def load_model_cached_def)
next
  assume r: "resolve_model_path (path_exists w) ''best_model.pkl'' = None"
  show lm: "load_model w = (None, [], [])"
    by (simp add: load_model_def r)
  show "main fo w empty_cache inp = (Some (None, []), [], Inr [Title, ErrorModelNotFound])"
    by (simp add: main_def load_model_cached_def empty_cache_def lm)
  show "main fo w' (Some (None, [])) inp' = (Some (None, []), [], Inr [Title, ErrorModelNotFound])"
    by (simp add: main_def load_model_cached_def)
qed

lemma corrupt_resolves:
  "resolve_model_path (path_exists corrupt_world) ''best_model.pkl'' = Some ''best_model.pkl''"
  by (simp add: corrupt_world_def resolve_model_path_def possible_paths_def os_path_join_def
      join_step_def endswith_sep_def)

lemma corrupt_load: "joblib_load corrupt_world ''best_model.pkl'' = Inl (Raised ''invalid load key'')"
  by (simp add: corrupt_world_def)

lemma empty_resolves: "resolve_model_path (path_exists empty_world) ''best_model.pkl'' = None"
  by (simp add: empty_world_def resolve_model_path_def possible_paths_def)

theorem load_failure_model_unavailable_witness:
  "main rat_ops corrupt_world empty_cache scenario_inputs =
     (Some (None, [ErrorLoading (Raised ''invalid load key'')]), [''best_model.pkl''],
      Inr [Title, ErrorLoading (Raised ''invalid load key''), ErrorModelNotFound]) \<and>
   main rat_ops (artifact_world (constant_model (IntL 1)))
       (Some (None, [ErrorLoading (Raised ''invalid load key'')])) scenario_inputs =
     (Some (None, [ErrorLoading (Raised ''invalid load key'')]), [],
      Inr [Title, ErrorLoading (Raised ''invalid load key''), ErrorModelNotFound]) \<and>
   main rat_ops empty_world empty_cache scenario_inputs =
     (Some (None, []), [], Inr [Title, ErrorModelNotFound])"
  using load_failure_model_unavailable[where w = corrupt_world and fo = rat_ops
        and inp = scenario_inputs and inp' = scenario_inputs
        and w' = "artifact_world (constant_model (IntL 1))",
        THEN conjunct1, rule_format, OF corrupt_resolves corrupt_load]
    load_failure_model_unavailable[where w = empty_world and fo = rat_ops
        and inp = scenario_inputs and inp' = scenario_inputs and w' = empty_world
        and p = "[]" and e = IndexError,
        THEN conjunct2, rule_format, OF empty_resolves]
  by simp

subsection \<open>Batch predictor\<close>

lemma put_column_fresh:
  "name \<notin> set (column_names df) \<Longrightarrow> put_column name vals df = df @ [(name, vals)]"
  by (induction df) (auto simp add: column_names_def)

lemma nrows_snoc:
  "nrows (df @ [(name, vals)]) = (if df = [] then length vals else nrows df)"
  by (cases df) auto

lemma set_column_fresh:
  "name \<notin> set (column_names df) \<Longrightarrow> length vals = nrows df \<Longrightarrow>
     set_column df name vals = Inr (df @ [(name, vals)])"
  by (auto simp add: set_column_def put_column_fresh)

lemma batch_ok_cases:
  "br_ok (batch_analysis m df) \<Longrightarrow>
     \<exists>preds df1. predict m df = Inr preds \<and>
       set_column df ''Prediction'' (map cell_of_label preds) = Inr df1 \<and>
       (case predict_proba m of
          None \<Rightarrow> br_df (batch_analysis m df) = df1
        | Some pp \<Rightarrow> \<exists>P probs df2. pp df1 = Inr P \<and> column_1 P = Inr probs \<and>
            set_column df1 ''Probability'' (map FloatC probs) = Inr df2 \<and>
            br_df (batch_analysis m df) = df2)"
  by (auto simp add: batch_analysis_def batch_fail_def batch_done_def
      split: sum.splits option.splits)

lemma column_1_length: "column_1 P = Inr probs \<Longrightarrow> length probs = length P"
  by (auto simp add: column_1_def split: if_splits)

text \<open>
  C3, amended: for a classifier that returns one class and one row of probabilities per
  row, and an uploaded table that has no column with the name of a column to be added
  (\<open>Prediction\<close>, and \<open>Probability\<close> when probability estimation is supported), a
  successful batch prediction leaves the number of rows as it was and returns the
  original columns unchanged, in their order, followed by \<open>Prediction\<close> and
  \<open>Probability\<close> with probability estimation and by \<open>Prediction\<close> alone without.
\<close>

theorem batch_appends_columns:
  assumes contract: "one_per_row m"
    and ok: "br_ok (batch_analysis m df)"
    and fresh1: "''Prediction'' \<notin> set (column_names df)"
    and fresh2: "predict_proba m \<noteq> None \<longrightarrow> ''Probability'' \<notin> set (column_names df)"
  shows "nrows (br_df (batch_analysis m df)) = nrows df \<and>
         (\<exists>pc. length pc = nrows df \<and>
            (case predict_proba m of
               None \<Rightarrow> br_df (batch_analysis m df) = df @ [(''Prediction'', pc)]
             | Some pp \<Rightarrow> \<exists>qc. length qc = nrows df \<and>
                 br_df (batch_analysis m df) =
                   df @ [(''Prediction'', pc), (''Probability'', qc)]))"
proof -
  from batch_ok_cases[OF ok] obtain preds df1 where
    p: "predict m df = Inr preds"
    and s1: "set_column df ''Prediction'' (map cell_of_label preds) = Inr df1"
    and rest: "case predict_proba m of
          None \<Rightarrow> br_df (batch_analysis m df) = df1
        | Some pp \<Rightarrow> \<exists>P probs df2. pp df1 = Inr P \<and> column_1 P = Inr probs \<and>
            set_column df1 ''Probability'' (map FloatC probs) = Inr df2 \<and>
            br_df (batch_analysis m df) = df2"
    by blast
  let ?pc = "map cell_of_label preds :: 'a cell list"
  from contract p have len: "length ?pc = nrows df"
    by (simp add: one_per_row_def)
  from s1 set_column_fresh[OF fresh1 len] have df1: "df1 = df @ [(''Prediction'', ?pc)]"
    by simp
  have n1: "nrows df1 = nrows df"
    using len by (simp add: df1 nrows_snoc)
  show ?thesis
  proof (cases "predict_proba m")
    case None
    with rest have "br_df (batch_analysis m df) = df1" by simp
    with None n1 df1 len show ?thesis by auto
  next
    case (Some pp)
    with rest obtain P probs df2 where pp: "pp df1 = Inr P" and c1: "column_1 P = Inr probs"
      and s2: "set_column df1 ''Probability'' (map FloatC probs) = Inr df2"
      and out: "br_df (batch_analysis m df) = df2"
      by auto
    from contract Some pp have "length P = nrows df1"
      by (simp add: one_per_row_def)
    with column_1_length[OF c1] n1 have lq: "length (map FloatC probs :: 'a cell list) = nrows df1"
      by simp
    from fresh2 Some have "''Probability'' \<notin> set (column_names df1)"
      by (simp add: df1 column_names_def)
    from set_column_fresh[OF this lq] s2
    have df2: "df2 = df1 @ [(''Probability'', map FloatC probs)]" by simp
    have "df1 \<noteq> []" by (simp add: df1)
    then have "nrows df2 = nrows df"
      using n1 by (simp add: df2 nrows_snoc)
    moreover have "length (map FloatC probs :: 'a cell list) = nrows df"
      using lq n1 by simp
    ultimately show ?thesis
      using Some out df2 df1 len by auto
  qed
qed

lemma constant_model_contract: "one_per_row (constant_model c)"
  by (simp add: one_per_row_def constant_model_def)

lemma constant_proba_model_contract: "one_per_row (constant_proba_model c row)"
  by (auto simp add: one_per_row_def constant_proba_model_def)

text \<open>
  C3, as stated: every successful batch prediction keeps all original columns unchanged
  and adds new ones. An uploaded table that already has a column \<open>Prediction\<close> gets
  that column overwritten, and no column is added.
\<close>

theorem batch_overwrites_prediction_counterexample:
  "one_per_row (constant_model (IntL 1) :: rat classifier) \<and>
   br_ok (batch_analysis (constant_model (IntL 1)) with_prediction) \<and>
   br_df (batch_analysis (constant_model (IntL 1)) with_prediction)
     = [(''Age'', [IntC 50]), (''Prediction'', [IntC 1])] \<and>
   with_prediction = [(''Age'', [IntC 50]), (''Prediction'', [IntC 0])] \<and>
   \<not> (\<exists>pc. br_df (batch_analysis (constant_model (IntL 1)) with_prediction)
            = with_prediction @ [(''Prediction'', pc)])"
  by (simp add: constant_model_contract)
     (simp add: batch_analysis_def constant_model_def with_prediction_def set_column_def
      batch_done_def)

lemma age_only_ok: "br_ok (batch_analysis (constant_proba_model (IntL 1) [1 / 4, 3 / 4]) age_only)"
  by (simp add: batch_analysis_def constant_proba_model_def age_only_def set_column_def
      batch_done_def column_1_def)

theorem batch_appends_columns_witness:
  "br_df (batch_analysis (constant_proba_model (IntL 1) [1 / 4, 3 / 4]) age_only)
     = [(''Age'', [IntC 50, IntC 61]), (''Prediction'', [IntC 1, IntC 1]),
        (''Probability'', [FloatC (3 / 4), FloatC (3 / 4)])] \<and>
   nrows (br_df (batch_analysis (constant_proba_model (IntL 1) [1 / 4, 3 / 4]) age_only)) = 2"
proof -
  have f1: "''Prediction'' \<notin> set (column_names age_only)"
    by (simp add: age_only_def column_names_def)
  have f2: "predict_proba (constant_proba_model (IntL 1) [1 / 4, 3 / 4 :: rat]) \<noteq> None \<longrightarrow>
            ''Probability'' \<notin> set (column_names age_only)"
    by (simp add: age_only_def column_names_def)
  from batch_appends_columns[OF constant_proba_model_contract age_only_ok f1 f2]
  have "nrows (br_df (batch_analysis (constant_proba_model (IntL 1) [1 / 4, 3 / 4]) age_only))
          = nrows age_only"
    by blast
  moreover have "br_df (batch_analysis (constant_proba_model (IntL 1) [1 / 4, 3 / 4]) age_only)
     = [(''Age'', [IntC 50, IntC 61]), (''Prediction'', [IntC 1, IntC 1]),
        (''Probability'', [FloatC (3 / 4), FloatC (3 / 4)])]"
    by (simp add: batch_analysis_def constant_proba_model_def age_only_def set_column_def
      batch_done_def column_1_def numeral_2_eq_2)
  ultimately show ?thesis by (simp add: age_only_def)
qed

text \<open>
  C7: when the classifier rejects the uploaded table (a required column is missing, so
  \<open>predict\<close> raises), the table is left as it was and the error is shown with the hint
  about the column format; whenever the block raises, that message and the hint are all
  that is shown, without a download; the tab returns normally, ready for another file.
\<close>

theorem batch_error_reported:
  "(predict m df = Inl e \<longrightarrow>
      batch_analysis m df =
        \<lparr>br_ok = False, br_df = df, br_calls = [CallPredict df],
         br_ui = [ErrorBatch e, InfoHint]\<rparr> \<and>
      tab_batch m (Some (Inr df)) True =
        [SubheaderBatch, WritePreview, Dataframe (head5 df), ErrorBatch e, InfoHint]) \<and>
   (\<not> br_ok (batch_analysis m df) \<longrightarrow>
      (\<exists>e'. br_ui (batch_analysis m df) = [ErrorBatch e', InfoHint]) \<and>
      (\<forall>d. Download d \<notin> set (br_ui (batch_analysis m df))))"
proof (intro conjI impI)
  assume p: "predict m df = Inl e"
  show b: "batch_analysis m df =
        \<lparr>br_ok = False, br_df = df, br_calls = [CallPredict df],
         br_ui = [ErrorBatch e, InfoHint]\<rparr>"
    by (simp add: batch_analysis_def p batch_fail_def)
  show "tab_batch m (Some (Inr df)) True =
        [SubheaderBatch, WritePreview, Dataframe (head5 df), ErrorBatch e, InfoHint]"
    by (simp add: tab_batch_def b)
next
  assume f: "\<not> br_ok (batch_analysis m df)"
  then show e: "\<exists>e'. br_ui (batch_analysis m df) = [ErrorBatch e', InfoHint]"
    by (auto simp add: batch_analysis_def batch_fail_def batch_done_def
        split: sum.splits option.splits)
  then show "\<forall>d. Download d \<notin> set (br_ui (batch_analysis m df))"
    by auto
qed

lemma age_model_rejects:
  "predict age_model bp_only = Inl (Raised ''missing column: Age'')"
  by (simp add: age_model_def bp_only_def)

theorem batch_error_reported_witness:
  "batch_analysis age_model bp_only =
     \<lparr>br_ok = False, br_df = [(''BP'', [IntC 120, IntC 140])],
      br_calls = [CallPredict bp_only],
      br_ui = [ErrorBatch (Raised ''missing column: Age''), InfoHint]\<rparr> \<and>
   tab_batch age_model (Some (Inr bp_only)) True =
     [SubheaderBatch, WritePreview, Dataframe (head5 bp_only),
      ErrorBatch (Raised ''missing column: Age''), InfoHint] \<and>
   (\<forall>d. Download d \<notin> set (br_ui (batch_analysis age_model bp_only)))"
proof -
  note t = batch_error_reported[of age_model bp_only "Raised ''missing column: Age''"]
  note a = t[THEN conjunct1, rule_format, OF age_model_rejects]
  from a have "\<not> br_ok (batch_analysis age_model bp_only)" by simp
  from t[THEN conjunct2, rule_format, OF this] a show ?thesis
    by (simp add: bp_only_def)
qed

text \<open>
  C10, as stated: \<open>predict\<close> and \<open>predict_proba\<close> receive different column sets. For
  an uploaded table that already has a column \<open>Prediction\<close> both receive the same
  column names: the assignment replaces the column.
\<close>

theorem predict_proba_same_columns_counterexample:
  "predict_proba (constant_proba_model (IntL 1) [1 / 4, 3 / 4 :: rat]) \<noteq> None \<and>
   br_calls (batch_analysis (constant_proba_model (IntL 1) [1 / 4, 3 / 4]) with_prediction)
     = [CallPredict [(''Age'', [IntC 50]), (''Prediction'', [IntC 0])],
        CallPredictProba [(''Age'', [IntC 50]), (''Prediction'', [IntC 1])]] \<and>
   column_names [(''Age'', [IntC 50 :: rat cell]), (''Prediction'', [IntC 1])]
     = column_names [(''Age'', [IntC 50 :: rat cell]), (''Prediction'', [IntC 0])]"
  by (simp add: batch_analysis_def constant_proba_model_def with_prediction_def set_column_def
      batch_done_def column_1_def column_names_def)

lemma column_names_refill:
  "column_names (map (\<lambda>(n, col). (n, f col)) df) = column_names df"
  by (induction df) (auto simp add: column_names_def)

lemma set_column_fresh_names:
  assumes "set_column df name vals = Inr d" and "name \<notin> set (column_names df)"
  shows "column_names d = column_names df @ [name]"
proof -
  have "column_names (put_column name vals df') = column_names df' @ [name]"
    if "name \<notin> set (column_names df')" for df' :: "'a frame"
    using that by (simp add: put_column_fresh) (simp add: column_names_def)
  with assms show ?thesis
    by (auto simp add: set_column_def column_names_refill split: if_splits)
qed

lemma batch_calls_after_set:
  assumes "predict_proba m = Some pp"
    and "predict m df = Inr preds"
    and "set_column df ''Prediction'' (map cell_of_label preds) = Inr d"
  shows "br_calls (batch_analysis m df) = [CallPredict df, CallPredictProba d]"
    and "pp d = Inl e \<Longrightarrow>
           batch_analysis m df =
             \<lparr>br_ok = False, br_df = d, br_calls = [CallPredict df, CallPredictProba d],
              br_ui = [ErrorBatch e, InfoHint]\<rparr>"
  using assms
  by (simp_all add: batch_analysis_def batch_fail_def batch_done_def split: sum.splits)

lemma batch_calls_no_proba:
  assumes "CallPredictProba d \<in> set (br_calls (batch_analysis m df))"
  shows "\<exists>preds. predict m df = Inr preds \<and>
           set_column df ''Prediction'' (map cell_of_label preds) = Inr d"
  using assms
  by (auto simp add: batch_analysis_def batch_fail_def batch_done_def
      split: sum.splits option.splits)

text \<open>
  C10, amended: with probability estimation and an uploaded table without a column
  \<open>Prediction\<close>, \<open>predict\<close> is called on the uploaded table and every call of
  \<open>predict_proba\<close> is on the table after \<open>Prediction\<close> has been appended, so its
  columns are the uploaded ones and \<open>Prediction\<close>; if \<open>predict_proba\<close> raises there,
  the table is left with the column \<open>Prediction\<close>. The call is made whenever
  \<open>predict\<close> returns one class per row.
\<close>

theorem predict_proba_after_prediction:
  assumes "predict_proba m = Some pp"
    and "''Prediction'' \<notin> set (column_names df)"
  shows "(\<forall>d. CallPredictProba d \<in> set (br_calls (batch_analysis m df)) \<longrightarrow>
            br_calls (batch_analysis m df) = [CallPredict df, CallPredictProba d] \<and>
            column_names d = column_names df @ [''Prediction''] \<and>
            set (column_names d) \<noteq> set (column_names df) \<and>
            (\<forall>e. pp d = Inl e \<longrightarrow>
               batch_analysis m df =
                 \<lparr>br_ok = False, br_df = d,
                  br_calls = [CallPredict df, CallPredictProba d],
                  br_ui = [ErrorBatch e, InfoHint]\<rparr>)) \<and>
         (\<forall>preds. predict m df = Inr preds \<and> length preds = nrows df \<longrightarrow>
            br_calls (batch_analysis m df) =
              [CallPredict df,
               CallPredictProba (df @ [(''Prediction'', map cell_of_label preds)])])"
proof (intro conjI allI impI)
  fix d
  assume inv: "CallPredictProba d \<in> set (br_calls (batch_analysis m df))"
  from batch_calls_no_proba[OF inv] obtain preds where
    p: "predict m df = Inr preds"
    and s: "set_column df ''Prediction'' (map cell_of_label preds) = Inr d"
    by blast
  show "br_calls (batch_analysis m df) = [CallPredict df, CallPredictProba d]"
    by (rule batch_calls_after_set(1)[OF assms(1) p s])
  show names: "column_names d = column_names df @ [''Prediction'']"
    by (rule set_column_fresh_names[OF s assms(2)])
  show "set (column_names d) \<noteq> set (column_names df)"
    using assms(2) by (auto simp add: names)
  fix e
  assume "pp d = Inl e"
  then show "batch_analysis m df =
                 \<lparr>br_ok = False, br_df = d,
                  br_calls = [CallPredict df, CallPredictProba d],
                  br_ui = [ErrorBatch e, InfoHint]\<rparr>"
    by (rule batch_calls_after_set(2)[OF assms(1) p s])
next
  fix preds
  assume a: "predict m df = Inr preds \<and> length preds = nrows df"
  then have "set_column df ''Prediction'' (map cell_of_label preds)
               = Inr (df @ [(''Prediction'', map cell_of_label preds)])"
    using assms(2) by (simp add: set_column_fresh)
  with a show "br_calls (batch_analysis m df) =
              [CallPredict df,
               CallPredictProba (df @ [(''Prediction'', map cell_of_label preds)])]"
    using batch_calls_after_set(1)[OF assms(1)] by blast
qed

theorem predict_proba_after_prediction_witness:
  "br_calls (batch_analysis age_model age_only) =
     [CallPredict [(''Age'', [IntC 50, IntC 61])],
      CallPredictProba [(''Age'', [IntC 50, IntC 61]), (''Prediction'', [IntC 0, IntC 0])]] \<and>
   batch_analysis age_model age_only =
     \<lparr>br_ok = False,
      br_df = [(''Age'', [IntC 50, IntC 61]), (''Prediction'', [IntC 0, IntC 0])],
      br_calls = [CallPredict [(''Age'', [IntC 50, IntC 61])],
         CallPredictProba [(''Age'', [IntC 50, IntC 61]), (''Prediction'', [IntC 0, IntC 0])]],
      br_ui = [ErrorBatch (Raised ''feature names should match''), InfoHint]\<rparr>"
proof -
  let ?pp = "\<lambda>df :: rat frame. if map fst df \<noteq> [''Age'']
                                  then Inl (Raised ''feature names should match'')
                                  else Inr (replicate (nrows df) [3 / 4, 1 / 4 :: rat])"
  let ?d = "age_only @ [(''Prediction'', map cell_of_label [IntL 0, IntL 0])]"
  have a1: "predict_proba age_model = Some ?pp"
    by (simp add: age_model_def)
  have a2: "''Prediction'' \<notin> set (column_names age_only)"
    by (simp add: age_only_def column_names_def)
  have a3: "predict age_model age_only = Inr [IntL 0, IntL 0] \<and>
            length [IntL 0, IntL 0] = nrows age_only"
    by (simp add: age_model_def age_only_def numeral_2_eq_2)
  note t = predict_proba_after_prediction[OF a1 a2]
  from t[THEN conjunct2, rule_format, OF a3]
  have calls: "br_calls (batch_analysis age_model age_only)
                 = [CallPredict age_only, CallPredictProba ?d]" .
  then have inv: "CallPredictProba ?d \<in> set (br_calls (batch_analysis age_model age_only))"
    by simp
  have r: "?pp ?d = Inl (Raised ''feature names should match'')"
    by (simp add: age_only_def)
  from t[THEN conjunct1, rule_format, OF inv, THEN conjunct2, THEN conjunct2, THEN conjunct2,
      rule_format, OF r] calls
  show ?thesis
    by (simp add: age_only_def)
qed

end
